theory Spec2Isabelle
  imports Complex_Main
begin

section \<open>Python values and the agent blueprints\<close>

text \<open>
  The configuration dictionaries of \<^verbatim>\<open>run_defi_guardian_swarm.py\<close> hold strings, integers,
  floats, lists and nested dictionaries. A dictionary is an association list in the order
  the source writes its keys. A float literal is the rational number its decimal notation
  denotes; no arithmetic is done on these literals.
\<close>

datatype pyval =
    PStr string
  | PInt int
  | PFloat rat
  | PBool bool
  | PList "pyval list"
  | PDict "(string \<times> pyval) list"

text \<open>
  \<^verbatim>\<open>juliaos.ToolBlueprint\<close>, \<^verbatim>\<open>juliaos.StrategyBlueprint\<close>, \<^verbatim>\<open>juliaos.TriggerConfig\<close> and
  \<^verbatim>\<open>juliaos.AgentBlueprint\<close> are built by keyword arguments only; each is the record of
  the arguments it is given.
\<close>

record ToolBlueprint =
  tool_name :: string
  tool_config :: pyval

record StrategyBlueprint =
  strategy_name :: string
  strategy_config :: pyval

record TriggerConfig =
  trigger_type :: string
  trigger_params :: pyval

record AgentBlueprint =
  tools :: "ToolBlueprint list"
  strategy :: StrategyBlueprint
  trigger :: TriggerConfig

definition llm_chat_tool :: ToolBlueprint where
  "llm_chat_tool = \<lparr>tool_name = ''llm_chat'', tool_config = PDict []\<rparr>"

definition webhook_trigger :: TriggerConfig where
  "webhook_trigger = \<lparr>trigger_type = ''webhook'', trigger_params = PDict []\<rparr>"

definition COORDINATOR_AGENT_ID :: string where
  "COORDINATOR_AGENT_ID = ''defi-coordinator-agent''"

type_synonym agent_entry = "string \<times> string \<times> string \<times> AgentBlueprint"

subsection \<open>\<^verbatim>\<open>create_risk_management_agents\<close>\<close>

definition portfolio_analyzer :: AgentBlueprint where
  "portfolio_analyzer = \<lparr>
     tools = [llm_chat_tool],
     strategy = \<lparr>strategy_name = ''portfolio_risk_analysis'',
       strategy_config = PDict [
         (''specialization'', PStr ''portfolio_risk_assessment''),
         (''risk_thresholds'', PDict [
            (''high'', PFloat 0.8), (''medium'', PFloat 0.5), (''low'', PFloat 0.2)]),
         (''analysis_frequency'', PStr ''real_time'')]\<rparr>,
     trigger = webhook_trigger\<rparr>"

definition liquidity_monitor :: AgentBlueprint where
  "liquidity_monitor = \<lparr>
     tools = [llm_chat_tool],
     strategy = \<lparr>strategy_name = ''liquidity_monitoring'',
       strategy_config = PDict [
         (''specialization'', PStr ''liquidity_risk_assessment''),
         (''monitored_pools'', PList [PStr ''SOL/USDC'', PStr ''BTC/USDC'', PStr ''ETH/USDC'']),
         (''slippage_thresholds'', PDict [
            (''warning'', PFloat 0.01), (''critical'', PFloat 0.05)])]\<rparr>,
     trigger = webhook_trigger\<rparr>"

definition volatility_tracker :: AgentBlueprint where
  "volatility_tracker = \<lparr>
     tools = [llm_chat_tool],
     strategy = \<lparr>strategy_name = ''volatility_analysis'',
       strategy_config = PDict [
         (''specialization'', PStr ''market_volatility_tracking''),
         (''lookback_periods'', PList [PInt 24, PInt 168, PInt 720]),
         (''volatility_models'', PList [PStr ''historical'', PStr ''garch'', PStr ''implied''])]\<rparr>,
     trigger = webhook_trigger\<rparr>"

definition create_risk_management_agents :: "agent_entry list" where
  "create_risk_management_agents = [
     (''portfolio-risk-analyzer'', ''Portfolio Risk Analyzer'',
        ''Analyzes portfolio risk and concentration'', portfolio_analyzer),
     (''liquidity-monitor'', ''Liquidity Monitor'',
        ''Monitors liquidity and slippage risks'', liquidity_monitor),
     (''volatility-tracker'', ''Volatility Tracker'',
        ''Tracks market volatility and price risks'', volatility_tracker)]"

subsection \<open>\<^verbatim>\<open>create_mev_protection_agents\<close>\<close>

definition mempool_scanner :: AgentBlueprint where
  "mempool_scanner = \<lparr>
     tools = [llm_chat_tool],
     strategy = \<lparr>strategy_name = ''mempool_monitoring'',
       strategy_config = PDict [
         (''specialization'', PStr ''mempool_threat_detection''),
         (''scan_frequency'', PStr ''real_time''),
         (''detection_algorithms'', PList [PStr ''sandwich_detection'',
            PStr ''frontrun_detection'', PStr ''gas_analysis''])]\<rparr>,
     trigger = webhook_trigger\<rparr>"

definition sandwich_detector :: AgentBlueprint where
  "sandwich_detector = \<lparr>
     tools = [llm_chat_tool],
     strategy = \<lparr>strategy_name = ''sandwich_detection'',
       strategy_config = PDict [
         (''specialization'', PStr ''sandwich_attack_prevention''),
         (''detection_methods'', PList [PStr ''price_impact_analysis'',
            PStr ''timing_correlation'', PStr ''gas_pattern_analysis'']),
         (''minimum_impact_threshold'', PFloat 0.01)]\<rparr>,
     trigger = webhook_trigger\<rparr>"

definition tx_optimizer :: AgentBlueprint where
  "tx_optimizer = \<lparr>
     tools = [llm_chat_tool],
     strategy = \<lparr>strategy_name = ''transaction_optimization'',
       strategy_config = PDict [
         (''specialization'', PStr ''mev_resistant_execution''),
         (''optimization_targets'', PList [PStr ''mev_protection'',
            PStr ''gas_efficiency'', PStr ''execution_certainty'']),
         (''protection_mechanisms'', PList [PStr ''private_mempool'',
            PStr ''flashbots_protection'', PStr ''timing_optimization''])]\<rparr>,
     trigger = webhook_trigger\<rparr>"

definition create_mev_protection_agents :: "agent_entry list" where
  "create_mev_protection_agents = [
     (''mempool-scanner'', ''Mempool Scanner'',
        ''Scans mempool for MEV threats'', mempool_scanner),
     (''sandwich-detector'', ''Sandwich Attack Detector'',
        ''Detects and prevents sandwich attacks'', sandwich_detector),
     (''tx-optimizer'', ''Transaction Optimizer'',
        ''Optimizes transactions for MEV protection'', tx_optimizer)]"

subsection \<open>\<^verbatim>\<open>create_governance_agents\<close>\<close>

definition proposal_analyzer :: AgentBlueprint where
  "proposal_analyzer = \<lparr>
     tools = [llm_chat_tool],
     strategy = \<lparr>strategy_name = ''proposal_analysis'',
       strategy_config = PDict [
         (''specialization'', PStr ''dao_proposal_evaluation''),
         (''analysis_frameworks'', PList [PStr ''economic_impact'',
            PStr ''technical_feasibility'', PStr ''governance_implications'']),
         (''expertise_areas'', PList [PStr ''tokenomics'', PStr ''smart_contracts'',
            PStr ''dao_mechanics''])]\<rparr>,
     trigger = webhook_trigger\<rparr>"

definition sentiment_monitor :: AgentBlueprint where
  "sentiment_monitor = \<lparr>
     tools = [llm_chat_tool],
     strategy = \<lparr>strategy_name = ''sentiment_monitoring'',
       strategy_config = PDict [
         (''specialization'', PStr ''community_sentiment_analysis''),
         (''monitoring_sources'', PList [PStr ''discord'', PStr ''twitter'', PStr ''forum'',
            PStr ''governance_votes'']),
         (''sentiment_indicators'', PList [PStr ''engagement'', PStr ''discussion_quality'',
            PStr ''voting_patterns''])]\<rparr>,
     trigger = webhook_trigger\<rparr>"

definition voting_optimizer :: AgentBlueprint where
  "voting_optimizer = \<lparr>
     tools = [llm_chat_tool],
     strategy = \<lparr>strategy_name = ''voting_optimization'',
       strategy_config = PDict [
         (''specialization'', PStr ''optimal_voting_strategy''),
         (''optimization_goals'', PList [PStr ''dao_value_maximization'',
            PStr ''risk_minimization'', PStr ''community_alignment'']),
         (''strategy_types'', PList [PStr ''delegation'', PStr ''direct_voting'',
            PStr ''coalition_building''])]\<rparr>,
     trigger = webhook_trigger\<rparr>"

definition create_governance_agents :: "agent_entry list" where
  "create_governance_agents = [
     (''proposal-analyzer'', ''Proposal Analyzer'',
        ''Analyzes DAO proposals for impact and risks'', proposal_analyzer),
     (''sentiment-monitor'', ''Community Sentiment Monitor'',
        ''Monitors community sentiment and engagement'', sentiment_monitor),
     (''voting-optimizer'', ''Voting Strategy Optimizer'',
        ''Optimizes voting strategies for maximum impact'', voting_optimizer)]"

subsection \<open>\<^verbatim>\<open>create_coordinator_agent\<close>\<close>

definition create_coordinator_agent :: AgentBlueprint where
  "create_coordinator_agent = \<lparr>
     tools = [llm_chat_tool],
     strategy = \<lparr>strategy_name = ''swarm_coordination'',
       strategy_config = PDict [
         (''specialization'', PStr ''multi_swarm_coordination''),
         (''coordination_priorities'', PDict [
            (''critical'', PInt 1), (''high'', PInt 2), (''medium'', PInt 3), (''low'', PInt 4)]),
         (''decision_types'', PList [PStr ''emergency_stop'', PStr ''rebalance_portfolio'',
            PStr ''block_transaction'', PStr ''alert_user'', PStr ''vote_proposal'',
            PStr ''update_strategy'']),
         (''consensus_threshold'', PFloat 0.7)]\<rparr>,
     trigger = webhook_trigger\<rparr>"

text \<open>The identifier of an entry is its first component (\<^verbatim>\<open>agent[0]\<close> in the tests).\<close>

definition entry_id :: "agent_entry \<Rightarrow> string" where
  "entry_id e = fst e"

definition entry_name :: "agent_entry \<Rightarrow> string" where
  "entry_name e = fst (snd e)"

section \<open>Solana integration: \<^verbatim>\<open>solana_integration.py\<close>\<close>

record SolanaDEXData =
  pool_address :: string
  token_a :: string
  token_b :: string
  liquidity_usd :: rat
  price_impact :: rat
  volume_24h :: rat

text \<open>
  The agent object: its endpoint, the mock client built on the endpoint
  (\<^verbatim>\<open>SOLANA_AVAILABLE\<close> is true whenever the module loads, so the client is always set) and
  the list of mock pools.
\<close>

record SolanaOnchainAgent =
  rpc_endpoint :: string
  client :: "string option"
  mock_pools :: "SolanaDEXData list"

definition SolanaOnchainAgent_init :: "string \<Rightarrow> SolanaOnchainAgent" where
  "SolanaOnchainAgent_init endpoint = \<lparr>
     rpc_endpoint = endpoint,
     client = Some endpoint,
     mock_pools = [
       \<lparr>pool_address = ''9WzDXwBbmkg8ZTbNMqUxvQRAyrZzDsGYdLVL9zYtAWWM'',
        token_a = ''SOL'', token_b = ''USDC'',
        liquidity_usd = 1250000.50, price_impact = 0.02, volume_24h = 850000.25\<rparr>,
       \<lparr>pool_address = ''2wT8Yq49kHgDzXuPxZSaeLaH1qbmGXtEyPy64bL7aD3c'',
        token_a = ''SOL'', token_b = ''RAY'',
        liquidity_usd = 890000.75, price_impact = 0.15, volume_24h = 450000.80\<rparr>]\<rparr>"

text \<open>The \<^verbatim>\<open>for pool in self.mock_pools\<close> loop: the first pool with the address is returned.\<close>

fun find_pool :: "SolanaDEXData list \<Rightarrow> string \<Rightarrow> SolanaDEXData option" where
  "find_pool [] addr = None"
| "find_pool (pool # pools) addr =
     (if pool_address pool = addr then Some pool else find_pool pools addr)"

definition default_mock_pool :: "string \<Rightarrow> SolanaDEXData" where
  "default_mock_pool addr = \<lparr>pool_address = addr, token_a = ''SOL'', token_b = ''USDC'',
     liquidity_usd = 950000.30, price_impact = 0.08, volume_24h = 650000.40\<rparr>"

text \<open>
  \<^verbatim>\<open>get_dex_pool_data\<close> is declared to return \<^verbatim>\<open>Optional[SolanaDEXData]\<close>; \<open>None\<close> of the
  option type is Python's \<^verbatim>\<open>None\<close>.
\<close>

definition get_dex_pool_data :: "SolanaOnchainAgent \<Rightarrow> string \<Rightarrow> SolanaDEXData option" where
  "get_dex_pool_data self addr =
     (case find_pool (mock_pools self) addr of
        Some pool \<Rightarrow> Some pool
      | None \<Rightarrow> Some (default_mock_pool addr))"

text \<open>
  \<^verbatim>\<open>check_transaction_risk\<close> returns a dictionary. The last entry is
  \<^verbatim>\<open>datetime.utcnow().isoformat()\<close>: the clock's reading is the parameter \<open>now\<close>.
\<close>

definition check_transaction_risk ::
  "SolanaOnchainAgent \<Rightarrow> string \<Rightarrow> string \<Rightarrow> (string \<times> pyval) list" where
  "check_transaction_risk self transaction_signature now = [
     (''signature'', PStr transaction_signature),
     (''mev_detected'', PBool False),
     (''sandwich_attack'', PBool False),
     (''frontrunning'', PBool False),
     (''price_impact'', PFloat 0.02),
     (''risk_level'', PStr ''LOW''),
     (''confidence'', PFloat 0.95),
     (''analysis_timestamp'', PStr now)]"

section \<open>Deploying the agents: \<^verbatim>\<open>create_and_deploy_agents\<close>\<close>

text \<open>
  \<^verbatim>\<open>juliaos.Agent.create\<close> and \<^verbatim>\<open>agent.set_state\<close> belong to the \<^verbatim>\<open>juliaos\<close> package, which
  talks to the backend. They are parameters here. A call has one of three outcomes: it
  returns; it raises an exception of class \<^verbatim>\<open>Exception\<close>, with its message; or it raises
  an exception outside that class (\<^verbatim>\<open>KeyboardInterrupt\<close>, \<^verbatim>\<open>SystemExit\<close>,
  \<^verbatim>\<open>asyncio.CancelledError\<close>), which \<^verbatim>\<open>except Exception\<close> does not catch.
\<close>

datatype 'a outcome = Returned 'a | Raised string | Escaped string

text \<open>
  Each call takes the state of the connection and gives the new one with its outcome.
  The agent objects are of an arbitrary type \<open>'a\<close>; \<^verbatim>\<open>set_state\<close> changes the agent in
  place, so it returns the changed agent. \<^verbatim>\<open>RUNNING\<close> is the one member of
  \<^verbatim>\<open>juliaos.AgentState\<close> that the script uses.
\<close>

datatype AgentState = RUNNING

record ('c, 'a) juliaos =
  Agent_create ::
    "'c \<Rightarrow> AgentBlueprint \<Rightarrow> string \<Rightarrow> string \<Rightarrow> string \<Rightarrow> 'a outcome \<times> 'c"
  Agent_set_state :: "'c \<Rightarrow> 'a \<Rightarrow> AgentState \<Rightarrow> 'a outcome \<times> 'c"

text \<open>
  What the function prints: a heading, \<^verbatim>\<open>{name} created and started\<close>, or
  \<^verbatim>\<open>Failed to create {name}: {e}\<close> (without the emoji and the line breaks of the
  messages).
\<close>

datatype event = Heading string | Started string | Failed string string

record ('c, 'a) deploy_state =
  conn :: 'c
  created_agents :: "'a list"
  printed :: "event list"

text \<open>
  A run either goes on with a state (\<open>Inr\<close>) or is left by an exception that nothing
  catches (\<open>Inl\<close>, with the exception and the state it leaves behind).
\<close>

type_synonym ('c, 'a) run = "string \<times> ('c, 'a) deploy_state + ('c, 'a) deploy_state"

definition print_event :: "event \<Rightarrow> ('c, 'a) deploy_state \<Rightarrow> ('c, 'a) deploy_state" where
  "print_event ev st = st\<lparr>printed := printed st @ [ev]\<rparr>"

text \<open>
  The body of each \<^verbatim>\<open>for\<close> loop: \<^verbatim>\<open>try\<close> to create the agent, set it running, append it
  and report; \<^verbatim>\<open>except Exception\<close> reports the failure and the loop goes on. Any other
  exception leaves the function.
\<close>

definition deploy_one ::
  "('c, 'a) juliaos \<Rightarrow> agent_entry \<Rightarrow> ('c, 'a) deploy_state \<Rightarrow> ('c, 'a) run" where
  "deploy_one J entry st =
     (case entry of (agent_id, name, description, blueprint) \<Rightarrow>
        (case Agent_create J (conn st) blueprint agent_id name description of
           (Escaped e, c1) \<Rightarrow> Inl (e, st\<lparr>conn := c1\<rparr>)
         | (Raised e, c1) \<Rightarrow> Inr (print_event (Failed name e) (st\<lparr>conn := c1\<rparr>))
         | (Returned agent, c1) \<Rightarrow>
             (case Agent_set_state J c1 agent RUNNING of
                (Escaped e, c2) \<Rightarrow> Inl (e, st\<lparr>conn := c2\<rparr>)
              | (Raised e, c2) \<Rightarrow> Inr (print_event (Failed name e) (st\<lparr>conn := c2\<rparr>))
              | (Returned agent', c2) \<Rightarrow>
                  Inr (print_event (Started name)
                    (st\<lparr>conn := c2, created_agents := created_agents st @ [agent']\<rparr>)))))"

fun deploy_loop ::
  "('c, 'a) juliaos \<Rightarrow> agent_entry list \<Rightarrow> ('c, 'a) deploy_state \<Rightarrow> ('c, 'a) run" where
  "deploy_loop J [] st = Inr st"
| "deploy_loop J (entry # entries) st =
     (case deploy_one J entry st of
        Inl left \<Rightarrow> Inl left
      | Inr st' \<Rightarrow> deploy_loop J entries st')"

text \<open>
  The coordinator is created the same way, under \<^verbatim>\<open>COORDINATOR_AGENT_ID\<close>; both of its
  messages call it the Central Coordinator.
\<close>

definition coordinator_entry :: agent_entry where
  "coordinator_entry = (COORDINATOR_AGENT_ID, ''DeFi Guardian Coordinator'',
     ''Central coordinator for all DeFi Guardian swarms'', create_coordinator_agent)"

definition deploy_coordinator ::
  "('c, 'a) juliaos \<Rightarrow> ('c, 'a) deploy_state \<Rightarrow> ('c, 'a) run" where
  "deploy_coordinator J st =
     (case Agent_create J (conn st) create_coordinator_agent COORDINATOR_AGENT_ID
             ''DeFi Guardian Coordinator''
             ''Central coordinator for all DeFi Guardian swarms'' of
        (Escaped e, c1) \<Rightarrow> Inl (e, st\<lparr>conn := c1\<rparr>)
      | (Raised e, c1) \<Rightarrow> Inr (print_event (Failed ''Central Coordinator'' e) (st\<lparr>conn := c1\<rparr>))
      | (Returned coordinator, c1) \<Rightarrow>
          (case Agent_set_state J c1 coordinator RUNNING of
             (Escaped e, c2) \<Rightarrow> Inl (e, st\<lparr>conn := c2\<rparr>)
           | (Raised e, c2) \<Rightarrow>
               Inr (print_event (Failed ''Central Coordinator'' e) (st\<lparr>conn := c2\<rparr>))
           | (Returned coordinator', c2) \<Rightarrow>
               Inr (print_event (Started ''Central Coordinator'')
                 (st\<lparr>conn := c2, created_agents := created_agents st @ [coordinator']\<rparr>))))"

text \<open>The next statement runs only if the run was not left.\<close>

definition and_then ::
  "('c, 'a) run \<Rightarrow> (('c, 'a) deploy_state \<Rightarrow> ('c, 'a) run) \<Rightarrow> ('c, 'a) run" where
  "and_then R k = (case R of Inl left \<Rightarrow> Inl left | Inr st \<Rightarrow> k st)"

definition create_and_deploy_agents :: "('c, 'a) juliaos \<Rightarrow> 'c \<Rightarrow> ('c, 'a) run" where
  "create_and_deploy_agents J c =
     and_then (deploy_loop J create_risk_management_agents
        (print_event (Heading ''Creating Risk Management Agents...'')
          (print_event (Heading ''Creating DeFi Guardian Swarm Agents...'')
            \<lparr>conn = c, created_agents = [], printed = []\<rparr>)))
     (\<lambda>st1. and_then (deploy_loop J create_mev_protection_agents
        (print_event (Heading ''Creating MEV Protection Agents...'') st1))
     (\<lambda>st2. and_then (deploy_loop J create_governance_agents
        (print_event (Heading ''Creating Governance Advisory Agents...'') st2))
     (\<lambda>st3. deploy_coordinator J
        (print_event (Heading ''Creating Central Coordinator Agent...'') st3))))"

text \<open>
  What a caller gets: the list \<^verbatim>\<open>created_agents\<close> if the function returns, nothing if an
  exception left it. The state the run ends in holds what was printed and what became of
  the connection.
\<close>

definition returned :: "('c, 'a) run \<Rightarrow> 'a list option" where
  "returned R = (case R of Inl left \<Rightarrow> None | Inr st \<Rightarrow> Some (created_agents st))"

definition final_state :: "('c, 'a) run \<Rightarrow> ('c, 'a) deploy_state" where
  "final_state R = (case R of Inl left \<Rightarrow> snd left | Inr st \<Rightarrow> st)"

text \<open>The printed lines that report on an agent, without the headings.\<close>

fun reports :: "event list \<Rightarrow> event list" where
  "reports [] = []"
| "reports (Heading h # evs) = reports evs"
| "reports (ev # evs) = ev # reports evs"

subsection \<open>The deployment as the claim describes it\<close>

text \<open>
  The claim speaks of agents that fail and of the others that are not held up by them.
  In terms of the backend alone: to attempt an agent is to create it and, if that
  returns, to set it running.
\<close>

definition attempt :: "('c, 'a) juliaos \<Rightarrow> 'c \<Rightarrow> agent_entry \<Rightarrow> 'a outcome \<times> 'c" where
  "attempt J c entry =
     (case entry of (agent_id, name, description, blueprint) \<Rightarrow>
        (case Agent_create J c blueprint agent_id name description of
           (Returned agent, c1) \<Rightarrow> Agent_set_state J c1 agent RUNNING
         | (Raised e, c1) \<Rightarrow> (Raised e, c1)
         | (Escaped e, c1) \<Rightarrow> (Escaped e, c1)))"

fun escaped :: "'a outcome \<Rightarrow> bool" where
  "escaped (Escaped e) = True"
| "escaped r = False"

text \<open>
  The agents of a list are attempted one after the other, each under the name it is
  reported by, on the connection as the attempts before left it. A failure does not stop
  the attempts; an exception outside \<^verbatim>\<open>Exception\<close> does.
\<close>

fun attempts ::
  "('c, 'a) juliaos \<Rightarrow> 'c \<Rightarrow> (string \<times> agent_entry) list \<Rightarrow> (string \<times> 'a outcome) list \<times> 'c" where
  "attempts J c [] = ([], c)"
| "attempts J c ((label, entry) # rest) =
     (case attempt J c entry of (r, c') \<Rightarrow>
        if escaped r then ([(label, r)], c')
        else (case attempts J c' rest of (rs, c'') \<Rightarrow> ((label, r) # rs, c'')))"

text \<open>The agents to deploy, in order: the three swarms, then the coordinator.\<close>

definition deployment_plan :: "(string \<times> agent_entry) list" where
  "deployment_plan =
     map (\<lambda>entry. (entry_name entry, entry))
       (create_risk_management_agents @ create_mev_protection_agents
          @ create_governance_agents)
     @ [(''Central Coordinator'', coordinator_entry)]"

text \<open>What is printed for an attempt, and the agents of the attempts that returned.\<close>

fun report :: "string \<times> 'a outcome \<Rightarrow> event list" where
  "report (label, Returned agent) = [Started label]"
| "report (label, Raised e) = [Failed label e]"
| "report (label, Escaped e) = []"

fun successes :: "(string \<times> 'a outcome) list \<Rightarrow> 'a list" where
  "successes [] = []"
| "successes ((label, Returned agent) # rs) = agent # successes rs"
| "successes ((label, r) # rs) = successes rs"

definition any_escaped :: "(string \<times> 'a outcome) list \<Rightarrow> bool" where
  "any_escaped rs = list_ex (\<lambda>lr. escaped (snd lr)) rs"

text \<open>
  A run that started in a state follows a sequence of attempts when it leaves the
  connection as they do, has printed their reports, has appended their agents, and was
  left by an exception exactly if one of them was.
\<close>

definition follows ::
  "('c, 'a) run \<Rightarrow> ('c, 'a) deploy_state \<Rightarrow> (string \<times> 'a outcome) list \<times> 'c \<Rightarrow> bool" where
  "follows R st A \<longleftrightarrow>
     conn (final_state R) = snd A
     \<and> reports (printed (final_state R)) = reports (printed st) @ concat (map report (fst A))
     \<and> created_agents (final_state R) = created_agents st @ successes (fst A)
     \<and> isl R = any_escaped (fst A)"

subsection \<open>Two backends\<close>

text \<open>
  Both backends keep, as the state of the connection, the list of the calls made so far.
  On the first, creating the liquidity monitor times out and everything else succeeds; an
  agent object is its identifier.
\<close>

definition flaky_backend :: "(string list, string) juliaos" where
  "flaky_backend = \<lparr>
     Agent_create = (\<lambda>c blueprint agent_id name description.
        (if agent_id = ''liquidity-monitor'' then Raised ''timed out'' else Returned agent_id,
         c @ [''create '' @ agent_id])),
     Agent_set_state = (\<lambda>c agent s. (Returned agent, c @ [''start '' @ agent]))\<rparr>"

text \<open>On the second, the user interrupts the creation of the mempool scanner.\<close>

definition interrupted_backend :: "(string list, string) juliaos" where
  "interrupted_backend = \<lparr>
     Agent_create = (\<lambda>c blueprint agent_id name description.
        (if agent_id = ''mempool-scanner'' then Escaped ''KeyboardInterrupt''
         else Returned agent_id,
         c @ [''create '' @ agent_id])),
     Agent_set_state = (\<lambda>c agent s. (Returned agent, c @ [''start '' @ agent]))\<rparr>"

section \<open>Properties of the blueprints and of the Solana agent\<close>

lemma find_pool_address: "find_pool pools addr = Some pool \<Longrightarrow> pool_address pool = addr"
  by (induction pools) (auto split: if_splits)

text \<open>
  C8. Each of the three swarm constructors returns exactly three entries, and the nine
  identifiers together with the coordinator's identifier are pairwise distinct.
\<close>

theorem detector_ids_unique:
  "length create_risk_management_agents = 3
   \<and> length create_mev_protection_agents = 3
   \<and> length create_governance_agents = 3
   \<and> COORDINATOR_AGENT_ID = ''defi-coordinator-agent''
   \<and> distinct (map entry_id (create_risk_management_agents @ create_mev_protection_agents
        @ create_governance_agents) @ [COORDINATOR_AGENT_ID])"
  by (simp add: create_risk_management_agents_def create_mev_protection_agents_def
      create_governance_agents_def COORDINATOR_AGENT_ID_def entry_id_def)

text \<open>
  C9. For every agent object and every pool address, \<^verbatim>\<open>get_dex_pool_data\<close> returns a
  record, never \<^verbatim>\<open>None\<close>, and the record's address is the queried one. For the agent that
  \<^verbatim>\<open>__init__\<close> builds, the record is the mock pool with that address if there is one, and
  the default SOL/USDC pool carrying the queried address otherwise.
\<close>

theorem get_dex_pool_data_never_none:
  "get_dex_pool_data self addr \<noteq> None
   \<and> map_option pool_address (get_dex_pool_data self addr) = Some addr
   \<and> get_dex_pool_data (SolanaOnchainAgent_init endpoint) addr =
       Some (if addr = ''9WzDXwBbmkg8ZTbNMqUxvQRAyrZzDsGYdLVL9zYtAWWM''
             then \<lparr>pool_address = addr, token_a = ''SOL'', token_b = ''USDC'',
                   liquidity_usd = 1250000.50, price_impact = 0.02, volume_24h = 850000.25\<rparr>
             else if addr = ''2wT8Yq49kHgDzXuPxZSaeLaH1qbmGXtEyPy64bL7aD3c''
             then \<lparr>pool_address = addr, token_a = ''SOL'', token_b = ''RAY'',
                   liquidity_usd = 890000.75, price_impact = 0.15, volume_24h = 450000.80\<rparr>
             else \<lparr>pool_address = addr, token_a = ''SOL'', token_b = ''USDC'',
                   liquidity_usd = 950000.30, price_impact = 0.08, volume_24h = 650000.40\<rparr>)"
proof -
  have "pool_address d = addr" if "get_dex_pool_data self addr = Some d" for d
    using that
    by (auto simp: get_dex_pool_data_def default_mock_pool_def
        split: option.splits dest: find_pool_address)
  moreover have "get_dex_pool_data self addr \<noteq> None"
    by (simp add: get_dex_pool_data_def split: option.splits)
  ultimately have "get_dex_pool_data self addr \<noteq> None
      \<and> map_option pool_address (get_dex_pool_data self addr) = Some addr"
    by (cases "get_dex_pool_data self addr") auto
  moreover have "get_dex_pool_data (SolanaOnchainAgent_init endpoint) addr =
       Some (if addr = ''9WzDXwBbmkg8ZTbNMqUxvQRAyrZzDsGYdLVL9zYtAWWM''
             then \<lparr>pool_address = addr, token_a = ''SOL'', token_b = ''USDC'',
                   liquidity_usd = 1250000.50, price_impact = 0.02, volume_24h = 850000.25\<rparr>
             else if addr = ''2wT8Yq49kHgDzXuPxZSaeLaH1qbmGXtEyPy64bL7aD3c''
             then \<lparr>pool_address = addr, token_a = ''SOL'', token_b = ''RAY'',
                   liquidity_usd = 890000.75, price_impact = 0.15, volume_24h = 450000.80\<rparr>
             else \<lparr>pool_address = addr, token_a = ''SOL'', token_b = ''USDC'',
                   liquidity_usd = 950000.30, price_impact = 0.08, volume_24h = 650000.40\<rparr>)"
    by (simp add: get_dex_pool_data_def SolanaOnchainAgent_init_def default_mock_pool_def)
  ultimately show ?thesis by blast
qed

text \<open>
  C10. For every transaction signature (and every reading of the clock),
  \<^verbatim>\<open>check_transaction_risk\<close> reports no MEV, no sandwich attack, no front-running, price
  impact 0.02, risk level LOW and confidence 0.95. The signature is only echoed back:
  apart from its first entry, the result is the same for any two signatures.
\<close>

theorem check_transaction_risk_constant:
  "map_of (check_transaction_risk self sig now) ''signature'' = Some (PStr sig)
   \<and> map_of (check_transaction_risk self sig now) ''mev_detected'' = Some (PBool False)
   \<and> map_of (check_transaction_risk self sig now) ''sandwich_attack'' = Some (PBool False)
   \<and> map_of (check_transaction_risk self sig now) ''frontrunning'' = Some (PBool False)
   \<and> map_of (check_transaction_risk self sig now) ''price_impact'' = Some (PFloat 0.02)
   \<and> map_of (check_transaction_risk self sig now) ''risk_level'' = Some (PStr ''LOW'')
   \<and> map_of (check_transaction_risk self sig now) ''confidence'' = Some (PFloat 0.95)
   \<and> tl (check_transaction_risk self sig now) = tl (check_transaction_risk self' sig' now)"
  by (simp add: check_transaction_risk_def)

section \<open>Properties of the deployment\<close>

lemma printed_print_event [simp]: "printed (print_event ev st) = printed st @ [ev]"
  by (simp add: print_event_def)

lemma created_print_event [simp]: "created_agents (print_event ev st) = created_agents st"
  by (simp add: print_event_def)

lemma conn_print_event [simp]: "conn (print_event ev st) = conn st"
  by (simp add: print_event_def)

lemma reports_append [simp]: "reports (xs @ ys) = reports xs @ reports ys"
  by (induction xs rule: reports.induct) auto

lemma successes_append:
  "successes (xs @ ys) = successes xs @ successes ys"
  by (induction xs rule: successes.induct) auto

lemma any_escaped_simps [simp]:
  "any_escaped [] = False"
  "any_escaped ((label, r) # rs) = (escaped r \<or> any_escaped rs)"
  "any_escaped (xs @ ys) = (any_escaped xs \<or> any_escaped ys)"
  by (auto simp: any_escaped_def)

lemma deploy_one_follows:
  "follows (deploy_one J entry st) st (attempts J (conn st) [(entry_name entry, entry)])"
  by (cases entry)
    (auto simp: follows_def deploy_one_def attempt_def entry_name_def final_state_def
      split: prod.splits outcome.splits)

lemma deploy_coordinator_follows:
  "follows (deploy_coordinator J st) st
     (attempts J (conn st) [(''Central Coordinator'', coordinator_entry)])"
  by (auto simp: follows_def deploy_coordinator_def attempt_def coordinator_entry_def
      final_state_def split: prod.splits outcome.splits)

lemma attempts_append:
  "attempts J c (xs @ ys) =
     (if any_escaped (fst (attempts J c xs)) then attempts J c xs
      else (fst (attempts J c xs) @ fst (attempts J (snd (attempts J c xs)) ys),
            snd (attempts J (snd (attempts J c xs)) ys)))"
  by (induction J c xs rule: attempts.induct) (auto split: prod.splits)

lemma follows_and_then:
  assumes "follows R st (attempts J (conn st) xs)"
      and "\<And>st1. R = Inr st1 \<Longrightarrow> follows (k st1) st1 (attempts J (conn st1) ys)"
  shows "follows (and_then R k) st (attempts J (conn st) (xs @ ys))"
proof (cases R)
  case (Inl left)
  then show ?thesis using assms(1)
    by (auto simp: follows_def and_then_def attempts_append final_state_def)
next
  case (Inr st1)
  have c: "conn st1 = snd (attempts J (conn st) xs)"
    and ne: "\<not> any_escaped (fst (attempts J (conn st) xs))"
    using assms(1) Inr by (auto simp: follows_def final_state_def)
  from assms(2) [OF Inr] assms(1) Inr c ne show ?thesis
    by (auto simp: follows_def and_then_def attempts_append final_state_def successes_append)
qed

lemma follows_heading:
  "follows R (print_event (Heading h) st) A \<Longrightarrow> follows R st A"
  by (simp add: follows_def)

lemma and_then_Inr [simp]: "and_then (Inr st) k = k st"
  by (simp add: and_then_def)

lemma deploy_loop_follows:
  "follows (deploy_loop J entries st) st
     (attempts J (conn st) (map (\<lambda>entry. (entry_name entry, entry)) entries))"
proof (induction entries arbitrary: st)
  case Nil
  show ?case by (simp add: follows_def final_state_def)
next
  case (Cons entry entries)
  have "follows (and_then (deploy_one J entry st) (deploy_loop J entries)) st
      (attempts J (conn st)
         ([(entry_name entry, entry)] @ map (\<lambda>entry. (entry_name entry, entry)) entries))"
    by (rule follows_and_then [OF deploy_one_follows]) (rule Cons.IH)
  then show ?case by (simp add: and_then_def)
qed

lemma attempts_labels:
  "\<not> any_escaped (fst (attempts J c plan)) \<Longrightarrow> map fst (fst (attempts J c plan)) = map fst plan"
  by (induction J c plan rule: attempts.induct) (auto split: prod.splits if_splits)

lemma create_and_deploy_agents_follows:
  "follows (create_and_deploy_agents J c) \<lparr>conn = c, created_agents = [], printed = []\<rparr>
     (attempts J c deployment_plan)"
proof -
  let ?lab = "map (\<lambda>entry. (entry_name entry, entry))"
  let ?st = "\<lparr>conn = c, created_agents = [], printed = []\<rparr> :: ('a, 'b) deploy_state"
  have seg: "follows (deploy_loop J entries (print_event (Heading h) st)) st
      (attempts J (conn st) (?lab entries))" for entries h and st :: "('a, 'b) deploy_state"
    using deploy_loop_follows [of J entries "print_event (Heading h) st"]
    by (auto intro: follows_heading)
  have coord: "follows (deploy_coordinator J (print_event (Heading h) st)) st
      (attempts J (conn st) [(''Central Coordinator'', coordinator_entry)])"
    for h and st :: "('a, 'b) deploy_state"
    using deploy_coordinator_follows [of J "print_event (Heading h) st"]
    by (auto intro: follows_heading)
  have first: "follows (deploy_loop J create_risk_management_agents
        (print_event (Heading ''Creating Risk Management Agents...'')
          (print_event (Heading ''Creating DeFi Guardian Swarm Agents...'') ?st))) ?st
      (attempts J (conn ?st) (?lab create_risk_management_agents))"
    using seg [of create_risk_management_agents "''Creating Risk Management Agents...''"
        "print_event (Heading ''Creating DeFi Guardian Swarm Agents...'') ?st"]
    by (auto intro: follows_heading)
  have "follows (create_and_deploy_agents J c) ?st
      (attempts J (conn ?st) (?lab create_risk_management_agents
         @ (?lab create_mev_protection_agents
         @ (?lab create_governance_agents
         @ [(''Central Coordinator'', coordinator_entry)]))))"
    unfolding create_and_deploy_agents_def
    by (intro follows_and_then first seg coord)
  then show ?thesis by (simp add: deployment_plan_def)
qed

text \<open>
  C6, as the code has it. For every backend and every connection, the run of
  \<^verbatim>\<open>create_and_deploy_agents\<close> is the sequence of attempts on the deployment plan: the
  nine swarm agents and then the coordinator, each created and set running through the
  backend once and in order, on the connection as the earlier calls left it. An attempt
  that raises an exception of class \<^verbatim>\<open>Exception\<close> is reported with the agent's name and
  the error message and the attempts go on, so that unless an exception outside that class
  occurs all ten agents are attempted and the function returns exactly the agents whose
  attempt returned, in order. A failure leaves no entry in the returned list. An
  exception outside \<^verbatim>\<open>Exception\<close> ends the attempts and nothing is returned.
\<close>

theorem create_and_deploy_agents_isolation:
  "conn (final_state (create_and_deploy_agents J c)) = snd (attempts J c deployment_plan)
   \<and> reports (printed (final_state (create_and_deploy_agents J c)))
       = concat (map report (fst (attempts J c deployment_plan)))
   \<and> created_agents (final_state (create_and_deploy_agents J c))
       = successes (fst (attempts J c deployment_plan))
   \<and> returned (create_and_deploy_agents J c)
       = (if any_escaped (fst (attempts J c deployment_plan)) then None
          else Some (successes (fst (attempts J c deployment_plan))))
   \<and> (\<not> any_escaped (fst (attempts J c deployment_plan)) \<longrightarrow>
        map fst (fst (attempts J c deployment_plan)) =
          [''Portfolio Risk Analyzer'', ''Liquidity Monitor'', ''Volatility Tracker'',
           ''Mempool Scanner'', ''Sandwich Attack Detector'', ''Transaction Optimizer'',
           ''Proposal Analyzer'', ''Community Sentiment Monitor'',
           ''Voting Strategy Optimizer'', ''Central Coordinator''])"
proof -
  let ?R = "create_and_deploy_agents J c"
  let ?A = "attempts J c deployment_plan"
  have f: "follows ?R \<lparr>conn = c, created_agents = [], printed = []\<rparr> ?A"
    by (rule create_and_deploy_agents_follows)
  have "returned ?R = (if isl ?R then None else Some (created_agents (final_state ?R)))"
    by (cases ?R) (simp_all add: returned_def final_state_def)
  with f have ret: "returned ?R
      = (if any_escaped (fst ?A) then None else Some (successes (fst ?A)))"
    by (simp add: follows_def)
  have "map fst deployment_plan =
          [''Portfolio Risk Analyzer'', ''Liquidity Monitor'', ''Volatility Tracker'',
           ''Mempool Scanner'', ''Sandwich Attack Detector'', ''Transaction Optimizer'',
           ''Proposal Analyzer'', ''Community Sentiment Monitor'',
           ''Voting Strategy Optimizer'', ''Central Coordinator'']"
    by (simp add: deployment_plan_def create_risk_management_agents_def
        create_mev_protection_agents_def create_governance_agents_def entry_name_def)
  then have lab: "\<not> any_escaped (fst ?A) \<longrightarrow> map fst (fst ?A) =
          [''Portfolio Risk Analyzer'', ''Liquidity Monitor'', ''Volatility Tracker'',
           ''Mempool Scanner'', ''Sandwich Attack Detector'', ''Transaction Optimizer'',
           ''Proposal Analyzer'', ''Community Sentiment Monitor'',
           ''Voting Strategy Optimizer'', ''Central Coordinator'']"
    using attempts_labels [of J c deployment_plan] by simp
  from f ret lab show ?thesis by (simp add: follows_def)
qed

lemma flaky_attempts:
  "attempts flaky_backend [] deployment_plan =
     ([(''Portfolio Risk Analyzer'', Returned ''portfolio-risk-analyzer''),
       (''Liquidity Monitor'', Raised ''timed out''),
       (''Volatility Tracker'', Returned ''volatility-tracker''),
       (''Mempool Scanner'', Returned ''mempool-scanner''),
       (''Sandwich Attack Detector'', Returned ''sandwich-detector''),
       (''Transaction Optimizer'', Returned ''tx-optimizer''),
       (''Proposal Analyzer'', Returned ''proposal-analyzer''),
       (''Community Sentiment Monitor'', Returned ''sentiment-monitor''),
       (''Voting Strategy Optimizer'', Returned ''voting-optimizer''),
       (''Central Coordinator'', Returned ''defi-coordinator-agent'')],
      [''create portfolio-risk-analyzer'', ''start portfolio-risk-analyzer'',
       ''create liquidity-monitor'',
       ''create volatility-tracker'', ''start volatility-tracker'',
       ''create mempool-scanner'', ''start mempool-scanner'',
       ''create sandwich-detector'', ''start sandwich-detector'',
       ''create tx-optimizer'', ''start tx-optimizer'',
       ''create proposal-analyzer'', ''start proposal-analyzer'',
       ''create sentiment-monitor'', ''start sentiment-monitor'',
       ''create voting-optimizer'', ''start voting-optimizer'',
       ''create defi-coordinator-agent'', ''start defi-coordinator-agent''])"
  by (simp add: deployment_plan_def create_risk_management_agents_def
      create_mev_protection_agents_def create_governance_agents_def entry_name_def
      coordinator_entry_def COORDINATOR_AGENT_ID_def attempt_def flaky_backend_def)

lemma interrupted_attempts:
  "attempts interrupted_backend [] deployment_plan =
     ([(''Portfolio Risk Analyzer'', Returned ''portfolio-risk-analyzer''),
       (''Liquidity Monitor'', Returned ''liquidity-monitor''),
       (''Volatility Tracker'', Returned ''volatility-tracker''),
       (''Mempool Scanner'', Escaped ''KeyboardInterrupt'')],
      [''create portfolio-risk-analyzer'', ''start portfolio-risk-analyzer'',
       ''create liquidity-monitor'', ''start liquidity-monitor'',
       ''create volatility-tracker'', ''start volatility-tracker'',
       ''create mempool-scanner''])"
  by (simp add: deployment_plan_def create_risk_management_agents_def
      create_mev_protection_agents_def create_governance_agents_def entry_name_def
      coordinator_entry_def COORDINATOR_AGENT_ID_def attempt_def interrupted_backend_def)

theorem create_and_deploy_agents_isolation_witness:
  "\<not> any_escaped (fst (attempts flaky_backend [] deployment_plan))
   \<and> returned (create_and_deploy_agents flaky_backend []) =
       Some [''portfolio-risk-analyzer'', ''volatility-tracker'',
         ''mempool-scanner'', ''sandwich-detector'', ''tx-optimizer'',
         ''proposal-analyzer'', ''sentiment-monitor'', ''voting-optimizer'',
         ''defi-coordinator-agent'']
   \<and> reports (printed (final_state (create_and_deploy_agents flaky_backend []))) =
       [Started ''Portfolio Risk Analyzer'', Failed ''Liquidity Monitor'' ''timed out'',
        Started ''Volatility Tracker'', Started ''Mempool Scanner'',
        Started ''Sandwich Attack Detector'', Started ''Transaction Optimizer'',
        Started ''Proposal Analyzer'', Started ''Community Sentiment Monitor'',
        Started ''Voting Strategy Optimizer'', Started ''Central Coordinator'']
   \<and> conn (final_state (create_and_deploy_agents flaky_backend [])) =
       [''create portfolio-risk-analyzer'', ''start portfolio-risk-analyzer'',
        ''create liquidity-monitor'',
        ''create volatility-tracker'', ''start volatility-tracker'',
        ''create mempool-scanner'', ''start mempool-scanner'',
        ''create sandwich-detector'', ''start sandwich-detector'',
        ''create tx-optimizer'', ''start tx-optimizer'',
        ''create proposal-analyzer'', ''start proposal-analyzer'',
        ''create sentiment-monitor'', ''start sentiment-monitor'',
        ''create voting-optimizer'', ''start voting-optimizer'',
        ''create defi-coordinator-agent'', ''start defi-coordinator-agent'']
   \<and> map fst (fst (attempts flaky_backend [] deployment_plan)) =
       [''Portfolio Risk Analyzer'', ''Liquidity Monitor'', ''Volatility Tracker'',
        ''Mempool Scanner'', ''Sandwich Attack Detector'', ''Transaction Optimizer'',
        ''Proposal Analyzer'', ''Community Sentiment Monitor'',
        ''Voting Strategy Optimizer'', ''Central Coordinator'']
   \<and> any_escaped (fst (attempts interrupted_backend [] deployment_plan))
   \<and> returned (create_and_deploy_agents interrupted_backend []) = None
   \<and> reports (printed (final_state (create_and_deploy_agents interrupted_backend []))) =
       [Started ''Portfolio Risk Analyzer'', Started ''Liquidity Monitor'',
        Started ''Volatility Tracker'']
   \<and> conn (final_state (create_and_deploy_agents interrupted_backend [])) =
       [''create portfolio-risk-analyzer'', ''start portfolio-risk-analyzer'',
        ''create liquidity-monitor'', ''start liquidity-monitor'',
        ''create volatility-tracker'', ''start volatility-tracker'',
        ''create mempool-scanner'']"
  using create_and_deploy_agents_isolation [of flaky_backend "[]"]
    create_and_deploy_agents_isolation [of interrupted_backend "[]"]
  by (simp add: flaky_attempts interrupted_attempts)

text \<open>
  C6, as the claim has it, fails: the claim turns a failure into a finding of severity
  UNKNOWN that takes part in the cycle. On the backend where creating the liquidity monitor
  times out, the function returns the nine other agents and nothing for the failed one;
  the failure is in the printed output only.
\<close>

theorem detector_failure_leaves_no_finding:
  "returned (create_and_deploy_agents flaky_backend []) =
     Some [''portfolio-risk-analyzer'', ''volatility-tracker'',
       ''mempool-scanner'', ''sandwich-detector'', ''tx-optimizer'',
       ''proposal-analyzer'', ''sentiment-monitor'', ''voting-optimizer'',
       ''defi-coordinator-agent'']
   \<and> Failed ''Liquidity Monitor'' ''timed out''
        \<in> set (printed (final_state (create_and_deploy_agents flaky_backend [])))"
  by (simp add: create_and_deploy_agents_def and_then_def deploy_coordinator_def
      deploy_one_def flaky_backend_def print_event_def returned_def final_state_def
      create_risk_management_agents_def create_mev_protection_agents_def
      create_governance_agents_def COORDINATOR_AGENT_ID_def)

end
